theory Spec2Isabelle
  imports Main
begin

section \<open>Batched inference of molpal's message-passing network (predict.py)\<close>

text \<open>
  The module \<^verbatim>\<open>molpal/models/mpnn/predict.py\<close> has two functions. \<^verbatim>\<open>predict\<close>
  wraps every molecule string in a datapoint, hands the dataset to a data loader and
  calls \<^verbatim>\<open>_predict\<close>, which switches the model to evaluation mode, runs the model
  on every batch under \<^verbatim>\<open>torch.no_grad()\<close>, concatenates the per-batch outputs
  and post-processes them (column slicing for mean/variance models, de-normalisation
  with an optional scaler).

  What the module only calls is a parameter of the embedding: the network's forward
  pass, the featurisation \<^verbatim>\<open>batch.batch_graph()\<close>, the data loader and the scaler's
  \<^verbatim>\<open>inverse_transform\<close>. They are taken to return normally. What the module computes
  itself with numpy (\<^verbatim>\<open>np.concatenate\<close>, the slices \<^verbatim>\<open>[:, 0::2]\<close> and
  \<^verbatim>\<open>[:, 1::2]\<close>, \<^verbatim>\<open>stds**2 * variances\<close>) is written out, with the
  \<^verbatim>\<open>ValueError\<close> numpy raises.
\<close>

subsection \<open>Data\<close>

text \<open>The only exception the module's own numpy calls can raise.\<close>

datatype py_error = ValueError

text \<open>
  A two-dimensional numpy array: its second shape component and its rows. The number of
  rows is \<open>length (rows a)\<close>; the column count is a field of its own because an array
  with no rows still has one. The element type is any type with a multiplication, so
  nothing depends on how floating-point numbers round.
\<close>

record 'a ndarray =
  ncols :: nat
  rows :: "'a list list"

definition nrows :: "'a ndarray \<Rightarrow> nat" where
  "nrows a = length (rows a)"

text \<open>Every row of a well-formed array has \<open>ncols\<close> entries.\<close>

definition wf_ndarray :: "'a ndarray \<Rightarrow> bool" where
  "wf_ndarray a = list_all (\<lambda>r. length r = ncols a) (rows a)"

text \<open>\<^verbatim>\<open>MoleculeDatapoint(smiles=[smi])\<close>: the only field the module sets.\<close>

record molecule_datapoint =
  smiles :: "string list"

type_synonym molecule_dataset = "molecule_datapoint list"

text \<open>
  The model object as far as the module touches it: its parameters, the training flag
  that \<^verbatim>\<open>model.eval()\<close> clears, and the device \<^verbatim>\<open>model.to(0)\<close> sets.
\<close>

datatype device = CPU | CUDA nat

record 'p module =
  params :: 'p
  training :: bool
  device :: device

text \<open>
  The forward pass \<^verbatim>\<open>model(batch_graph)\<close>, a parameter: from the training flag, the
  gradient mode (\<open>True\<close> when gradients are recorded), the parameters and the batch
  graph to the output tensor and the parameters after the call.
\<close>

type_synonym ('a, 'p, 'g) forward = "bool \<Rightarrow> bool \<Rightarrow> 'p \<Rightarrow> 'g \<Rightarrow> 'a ndarray \<times> 'p"

text \<open>
  \<^verbatim>\<open>StandardScaler\<close>: the per-task standard deviations \<^verbatim>\<open>stds\<close> (a one-dimensional
  array) and the method \<^verbatim>\<open>inverse_transform\<close>, a parameter.
\<close>

record 'a standard_scaler =
  stds :: "'a list"
  inverse_transform :: "'a ndarray \<Rightarrow> 'a ndarray"

text \<open>What \<^verbatim>\<open>_predict\<close> returns: one array, or the tuple \<^verbatim>\<open>(means, variances)\<close>.\<close>

datatype 'a prediction = Preds "'a ndarray" | MeansVars "'a ndarray" "'a ndarray"

subsection \<open>The numpy operations the module uses\<close>

text \<open>
  \<^verbatim>\<open>np.concatenate(pred_batches)\<close> along axis 0: \<^verbatim>\<open>ValueError\<close> on an empty
  sequence and when the column counts differ.
\<close>

definition np_concatenate :: "'a ndarray list \<Rightarrow> py_error + 'a ndarray" where
  "np_concatenate arrays =
     (case arrays of
        [] \<Rightarrow> Inl ValueError
      | a # rest \<Rightarrow>
          if list_all (\<lambda>b. ncols b = ncols a) rest
          then Inr \<lparr>ncols = ncols a, rows = concat (map rows arrays)\<rparr>
          else Inl ValueError)"

text \<open>The slice \<^verbatim>\<open>xs[0::2]\<close> of a sequence: every second entry, from the first.\<close>

fun step2 :: "'a list \<Rightarrow> 'a list" where
  "step2 [] = []"
| "step2 [x] = [x]"
| "step2 (x # y # xs) = x # step2 xs"

text \<open>
  The slice \<^verbatim>\<open>a[:, start::2]\<close> of an array, for \<open>start\<close> 0 or 1: all rows, every second
  column from column \<open>start\<close>.
\<close>

definition cols_from_step2 :: "nat \<Rightarrow> 'a ndarray \<Rightarrow> 'a ndarray" where
  "cols_from_step2 start a =
     \<lparr>ncols = (ncols a + 1 - start) div 2,
      rows = map (\<lambda>r. step2 (drop start r)) (rows a)\<rparr>"

text \<open>\<^verbatim>\<open>x**2\<close> on an array entry.\<close>

definition square :: "'a::times \<Rightarrow> 'a" where
  "square x = x * x"

text \<open>
  \<^verbatim>\<open>v * a\<close> for a one-dimensional \<open>v\<close> and a two-dimensional \<open>a\<close>, with numpy's
  broadcasting: the lengths agree, or one of them is 1 and is stretched, or the shapes
  do not broadcast and numpy raises \<^verbatim>\<open>ValueError\<close>.
\<close>

definition broadcast_times :: "'a::times list \<Rightarrow> 'a ndarray \<Rightarrow> py_error + 'a ndarray" where
  "broadcast_times v a =
     (if length v = ncols a
      then Inr \<lparr>ncols = ncols a, rows = map (\<lambda>r. map2 (*) v r) (rows a)\<rparr>
      else if length v = 1
      then Inr \<lparr>ncols = ncols a, rows = map (\<lambda>r. map (\<lambda>x. hd v * x) r) (rows a)\<rparr>
      else if ncols a = 1
      then Inr \<lparr>ncols = length v, rows = map (\<lambda>r. map (\<lambda>s. s * hd r) v) (rows a)\<rparr>
      else Inl ValueError)"

subsection \<open>The model object's methods\<close>

text \<open>
  \<^verbatim>\<open>model.to(0)\<close>: moves the module to CUDA device 0 in place and returns it (the
  device is taken to be there). The parameters keep their values.
\<close>

definition to :: "'p module \<Rightarrow> nat \<Rightarrow> 'p module" where
  "to model d = model\<lparr>device := CUDA d\<rparr>"

text \<open>\<^verbatim>\<open>model.eval()\<close>: clears the training flag in place.\<close>

definition eval :: "'p module \<Rightarrow> 'p module" where
  "eval model = model\<lparr>training := False\<rparr>"

subsection \<open>The module's functions\<close>

text \<open>
  The loop of \<^verbatim>\<open>_predict\<close>, inside \<^verbatim>\<open>with torch.no_grad()\<close>: the gradient mode of
  every forward pass is \<open>False\<close>. Each batch is featurised, run through the model and
  its output appended to \<^verbatim>\<open>pred_batches\<close>. (\<^verbatim>\<open>tqdm\<close> only iterates over the loader.)
\<close>

fun inference_loop ::
  "('a, 'p, 'g) forward \<Rightarrow> (molecule_dataset \<Rightarrow> 'g) \<Rightarrow> 'p module \<Rightarrow> molecule_dataset list \<Rightarrow>
   'a ndarray list \<Rightarrow> 'p module \<times> 'a ndarray list" where
  "inference_loop forward batch_graph model [] pred_batches = (model, pred_batches)"
| "inference_loop forward batch_graph model (batch # batches) pred_batches =
     (let (pred_batch, p) = forward (training model) False (params model) (batch_graph batch)
      in inference_loop forward batch_graph (model\<lparr>params := p\<rparr>) batches
           (pred_batches @ [pred_batch]))"

text \<open>
  \<^verbatim>\<open>_predict(model, data_loader, uncertainty, disable, scaler)\<close>. The result is the
  model object after the call and what the call returns or raises. \<open>data_loader\<close> is
  the sequence of batches the loader yields. A scaler object is always true in
  \<^verbatim>\<open>if scaler:\<close>, \<^verbatim>\<open>None\<close> never.
\<close>

definition predict' ::
  "('a::times, 'p, 'g) forward \<Rightarrow> (molecule_dataset \<Rightarrow> 'g) \<Rightarrow> 'p module \<Rightarrow> molecule_dataset list \<Rightarrow>
   bool \<Rightarrow> bool \<Rightarrow> 'a standard_scaler option \<Rightarrow> 'p module \<times> (py_error + 'a prediction)" where
  "predict' forward batch_graph model data_loader uncertainty disable scaler =
     (let (model, pred_batches) = inference_loop forward batch_graph (eval model) data_loader []
      in (model,
          case np_concatenate pred_batches of
            Inl e \<Rightarrow> Inl e
          | Inr preds \<Rightarrow>
              if uncertainty then
                (let means = cols_from_step2 0 preds;
                     variances = cols_from_step2 1 preds
                 in case scaler of
                      None \<Rightarrow> Inr (MeansVars means variances)
                    | Some sc \<Rightarrow>
                        (let means = inverse_transform sc means
                         in case broadcast_times (map square (stds sc)) variances of
                              Inl e \<Rightarrow> Inl e
                            | Inr variances \<Rightarrow> Inr (MeansVars means variances)))
              else
                (case scaler of
                   None \<Rightarrow> Inr (Preds preds)
                 | Some sc \<Rightarrow> Inr (Preds (inverse_transform sc preds)))))"

text \<open>The dataset \<^verbatim>\<open>predict\<close> builds: \<^verbatim>\<open>[MoleculeDatapoint(smiles=[smi]) for smi in smis]\<close>.\<close>

definition test_data :: "string list \<Rightarrow> molecule_dataset" where
  "test_data smis = map (\<lambda>smi. \<lparr>smiles = [smi]\<rparr>) smis"

text \<open>
  \<^verbatim>\<open>predict(model, smis, batch_size, ncpu, uncertainty, scaler, use_gpu)\<close>. The class
  \<^verbatim>\<open>MoleculeDataLoader\<close> is the parameter \<open>loader\<close>: from the dataset, the batch size
  and the number of workers to the batches it yields.
\<close>

definition predict ::
  "('a::times, 'p, 'g) forward \<Rightarrow> (molecule_dataset \<Rightarrow> 'g) \<Rightarrow>
   (molecule_dataset \<Rightarrow> int \<Rightarrow> int \<Rightarrow> molecule_dataset list) \<Rightarrow>
   'p module \<Rightarrow> string list \<Rightarrow> int \<Rightarrow> int \<Rightarrow> bool \<Rightarrow> 'a standard_scaler option \<Rightarrow> bool \<Rightarrow>
   'p module \<times> (py_error + 'a prediction)" where
  "predict forward batch_graph loader model smis batch_size ncpu uncertainty scaler use_gpu =
     (let model = (if use_gpu then to model 0 else model);
          data_loader = loader (test_data smis) batch_size ncpu
      in predict' forward batch_graph model data_loader uncertainty True scaler)"

subsection \<open>Sample inputs\<close>

text \<open>
  A stand-in model, loader and scaler, on which the theorems below are run. They are
  not part of the module. The sample model takes the batch itself as its graph and
  predicts for a molecule the length of its string plus a fixed offset per column; in
  training mode or with gradients on it also counts a step in its parameter, and in
  evaluation mode with gradients off it leaves the parameter alone.
\<close>

definition sample_row :: "int list \<Rightarrow> molecule_datapoint \<Rightarrow> int list" where
  "sample_row offsets d = map (\<lambda>c. int (length (hd (smiles d))) + c) offsets"

definition sample_forward :: "int list \<Rightarrow> (int, int, molecule_dataset) forward" where
  "sample_forward offsets tr ge p g =
     (\<lparr>ncols = length offsets, rows = map (sample_row offsets) g\<rparr>,
      if tr \<or> ge then p + 1 else p)"

text \<open>The same predictions from a model that never changes its parameter.\<close>

definition frozen_forward :: "int list \<Rightarrow> (int, int, molecule_dataset) forward" where
  "frozen_forward offsets tr ge p g =
     (\<lparr>ncols = length offsets, rows = map (sample_row offsets) g\<rparr>, p)"

definition sample_model :: "int module" where
  "sample_model = \<lparr>params = 0, training = True, device = CPU\<rparr>"

text \<open>A loader that yields the dataset in order, two datapoints to a batch.\<close>

fun pairs :: "'a list \<Rightarrow> 'a list list" where
  "pairs [] = []"
| "pairs [x] = [[x]]"
| "pairs (x # y # xs) = [x, y] # pairs xs"

definition sample_loader :: "molecule_dataset \<Rightarrow> int \<Rightarrow> int \<Rightarrow> molecule_dataset list" where
  "sample_loader dataset batch_size num_workers = pairs dataset"

text \<open>
  A scaler with the given standard deviations and mean 10 for every task: its inverse
  transform takes \<open>x\<close> in column \<open>j\<close> to \<open>x * stds[j] + 10\<close>.
\<close>

definition sample_scaler :: "int list \<Rightarrow> int standard_scaler" where
  "sample_scaler sds =
     \<lparr>stds = sds,
      inverse_transform = (\<lambda>a. a\<lparr>rows := map (\<lambda>r. map2 (\<lambda>x s. x * s + 10) r sds) (rows a)\<rparr>)\<rparr>"

text \<open>
  A scaler of the same kind whose inverse transform \<open>x * stds + 10\<close> broadcasts as numpy
  does for a two-dimensional \<open>x\<close> and one-dimensional \<open>stds\<close>: column by column when the
  lengths agree, and stretching the one of length 1 otherwise. (Shapes that numpy
  refuses are left as they are; no run below has them.)
\<close>

definition broadcast_scaler :: "int list \<Rightarrow> int standard_scaler" where
  "broadcast_scaler sds =
     \<lparr>stds = sds,
      inverse_transform = (\<lambda>a.
        if length sds = ncols a
        then \<lparr>ncols = ncols a, rows = map (\<lambda>r. map2 (\<lambda>x s. x * s + 10) r sds) (rows a)\<rparr>
        else if length sds = 1
        then \<lparr>ncols = ncols a, rows = map (\<lambda>r. map (\<lambda>x. x * hd sds + 10) r) (rows a)\<rparr>
        else if ncols a = 1
        then \<lparr>ncols = length sds, rows = map (\<lambda>r. map (\<lambda>s. hd r * s + 10) sds) (rows a)\<rparr>
        else a)\<rparr>"

subsection \<open>Column slices\<close>

lemma step2_length: "length (step2 xs) = (length xs + 1) div 2"
  by (induction xs rule: step2.induct) simp_all

lemma step2_nth: "j < length (step2 xs) \<Longrightarrow> step2 xs ! j = xs ! (2 * j)"
proof (induction xs arbitrary: j rule: step2.induct)
  case 1
  then show ?case by simp
next
  case (2 x)
  then show ?case by simp
next
  case (3 x y xs)
  then show ?case by (cases j) simp_all
qed

lemma step2_drop1_length: "length (step2 (drop 1 xs)) = length xs div 2"
  by (simp add: step2_length)

lemma step2_drop1_nth: "j < length xs div 2 \<Longrightarrow> step2 (drop 1 xs) ! j = xs ! (2 * j + 1)"
proof -
  assume j: "j < length xs div 2"
  then have "j < length (step2 (drop 1 xs))" by (simp add: step2_length)
  then have "step2 (drop 1 xs) ! j = drop 1 xs ! (2 * j)" by (rule step2_nth)
  also from j have "\<dots> = xs ! (2 * j + 1)" by simp
  finally show ?thesis .
qed

lemma cols_even_ncols: "ncols (cols_from_step2 0 a) = (ncols a + 1) div 2"
  by (simp add: cols_from_step2_def)

lemma cols_odd_ncols: "ncols (cols_from_step2 1 a) = ncols a div 2"
  by (simp add: cols_from_step2_def)

lemma cols_nrows: "nrows (cols_from_step2 start a) = nrows a"
  by (simp add: cols_from_step2_def nrows_def)

lemma cols_even_wf: "wf_ndarray a \<Longrightarrow> wf_ndarray (cols_from_step2 0 a)"
  by (simp add: wf_ndarray_def cols_from_step2_def list_all_iff step2_length)

lemma cols_odd_wf: "wf_ndarray a \<Longrightarrow> wf_ndarray (cols_from_step2 1 a)"
  by (cases "ncols a") (auto simp: wf_ndarray_def cols_from_step2_def list_all_iff step2_length)

lemma wf_row_length: "wf_ndarray a \<Longrightarrow> i < nrows a \<Longrightarrow> length (rows a ! i) = ncols a"
  by (simp add: wf_ndarray_def nrows_def list_all_length)

lemma cols_even_entry:
  "wf_ndarray a \<Longrightarrow> i < nrows a \<Longrightarrow> j < (ncols a + 1) div 2 \<Longrightarrow>
   rows (cols_from_step2 0 a) ! i ! j = rows a ! i ! (2 * j)"
  using wf_row_length [of a i]
  by (simp add: cols_from_step2_def nrows_def step2_nth step2_length)

lemma cols_odd_entry:
  "wf_ndarray a \<Longrightarrow> i < nrows a \<Longrightarrow> j < ncols a div 2 \<Longrightarrow>
   rows (cols_from_step2 1 a) ! i ! j = rows a ! i ! (2 * j + 1)"
  using wf_row_length [of a i] step2_drop1_nth [of j "rows a ! i"]
  by (simp add: cols_from_step2_def nrows_def)

text \<open>The same facts in the form the simplifier leaves the index 1 in.\<close>

lemmas cols_odd_ncols_Suc = cols_odd_ncols [unfolded One_nat_def]

lemmas cols_odd_entry_Suc = cols_odd_entry [unfolded One_nat_def]

subsection \<open>The inference loop\<close>

text \<open>
  The loop never touches the training flag or the device, it calls the forward pass
  only with the gradient mode off, and it appends one output per batch, in order.
\<close>

lemma loop_training: "training (fst (inference_loop F BG m bs acc)) = training m"
  by (induction bs arbitrary: m acc) (simp_all split: prod.splits)

lemma loop_device: "device (fst (inference_loop F BG m bs acc)) = device m"
  by (induction bs arbitrary: m acc) (simp_all split: prod.splits)

lemma loop_cong:
  "\<not> training m \<Longrightarrow> \<forall>p g. F False False p g = F' False False p g \<Longrightarrow>
   inference_loop F BG m bs acc = inference_loop F' BG m bs acc"
  by (induction bs arbitrary: m acc) (simp_all split: prod.splits)

lemma loop_params:
  "\<not> training m \<Longrightarrow> \<forall>p g. snd (F False False p g) = p \<Longrightarrow>
   fst (inference_loop F BG m bs acc) = m"
proof (induction bs arbitrary: acc)
  case Nil
  then show ?case by simp
next
  case (Cons b bs)
  obtain out p where fw: "F False False (params m) (BG b) = (out, p)"
    by (cases "F False False (params m) (BG b)")
  from Cons.prems have "snd (F False False (params m) (BG b)) = params m" by simp
  with fw have "m\<lparr>params := p\<rparr> = m" by simp
  with Cons fw show ?case by simp
qed

lemma loop_outputs:
  "\<not> training m \<Longrightarrow>
   \<exists>outs. snd (inference_loop F BG m bs acc) = acc @ outs \<and>
     list_all2 (\<lambda>out batch. \<exists>p. out = fst (F False False p (BG batch))) outs bs"
proof (induction bs arbitrary: m acc)
  case Nil
  then show ?case by simp
next
  case (Cons b bs)
  obtain out p where fw: "F False False (params m) (BG b) = (out, p)"
    by (cases "F False False (params m) (BG b)")
  from Cons.prems have "\<not> training (m\<lparr>params := p\<rparr>)" by simp
  from Cons.IH [OF this, of "acc @ [out]"]
  obtain outs where
    o: "snd (inference_loop F BG (m\<lparr>params := p\<rparr>) bs (acc @ [out])) = (acc @ [out]) @ outs"
      "list_all2 (\<lambda>out batch. \<exists>p. out = fst (F False False p (BG batch))) outs bs"
    by blast
  have "out = fst (F False False (params m) (BG b))" using fw by simp
  then have "list_all2 (\<lambda>out batch. \<exists>p. out = fst (F False False p (BG batch))) (out # outs) (b # bs)"
    using o(2) by auto
  moreover have "snd (inference_loop F BG m (b # bs) acc) = acc @ (out # outs)"
    using Cons.prems fw o(1) by simp
  ultimately show ?case by blast
qed

lemma list_all2_rows_cols:
  "list_all2 (\<lambda>out batch. nrows out = length batch \<and> ncols out = M) outs bs \<Longrightarrow>
   list_all (\<lambda>b. ncols b = M) outs \<and> length (concat (map rows outs)) = length (concat bs)"
  by (induction outs bs rule: list_all2_induct) (simp_all add: nrows_def)

lemma concat_rowwise:
  "list_all2 (\<lambda>out batch. rows out = map f batch) outs bs \<Longrightarrow>
   concat (map rows outs) = map f (concat bs)"
  by (induction outs bs rule: list_all2_induct) simp_all

subsection \<open>Concatenation and broadcasting\<close>

lemma np_concatenate_same_cols:
  assumes "outs \<noteq> []" and "list_all (\<lambda>b. ncols b = M) outs"
  shows "np_concatenate outs = Inr \<lparr>ncols = M, rows = concat (map rows outs)\<rparr>"
proof (cases outs)
  case Nil
  with assms(1) show ?thesis by simp
next
  case (Cons a rest)
  with assms(2) have "ncols a = M" "list_all (\<lambda>b. ncols b = ncols a) rest"
    by (simp_all add: list_all_iff)
  with Cons show ?thesis by (simp add: np_concatenate_def)
qed

lemma broadcast_times_same:
  "length v = ncols a \<Longrightarrow>
   broadcast_times v a = Inr \<lparr>ncols = ncols a, rows = map (\<lambda>r. map2 (*) v r) (rows a)\<rparr>"
  by (simp add: broadcast_times_def)

subsection \<open>The two functions, unfolded\<close>

lemma predict'_model:
  "fst (predict' F BG m dl u d sc) = fst (inference_loop F BG (eval m) dl [])"
  by (simp add: predict'_def split: prod.splits)

lemma predict'_result:
  "snd (predict' F BG m dl u d sc) =
     (case np_concatenate (snd (inference_loop F BG (eval m) dl [])) of
        Inl e \<Rightarrow> Inl e
      | Inr preds \<Rightarrow>
          if u then
            (case sc of
               None \<Rightarrow> Inr (MeansVars (cols_from_step2 0 preds) (cols_from_step2 1 preds))
             | Some s \<Rightarrow>
                 (case broadcast_times (map square (stds s)) (cols_from_step2 1 preds) of
                    Inl e \<Rightarrow> Inl e
                  | Inr v \<Rightarrow> Inr (MeansVars (inverse_transform s (cols_from_step2 0 preds)) v)))
          else
            (case sc of
               None \<Rightarrow> Inr (Preds preds)
             | Some s \<Rightarrow> Inr (Preds (inverse_transform s preds))))"
  by (simp add: predict'_def Let_def split: prod.splits sum.splits option.splits)

lemma predict_unfold:
  "predict F BG loader m smis bs ncpu u sc gpu =
     predict' F BG (if gpu then to m 0 else m) (loader (test_data smis) bs ncpu) u True sc"
  by (simp add: predict_def Let_def)

text \<open>
  The raw output of a run on a non-empty input, when the loader yields the dataset in
  order, split into batches, and the model returns one row per molecule of a batch and
  \<open>M\<close> columns.
\<close>

lemma raw_preds:
  assumes ne: "smis \<noteq> []"
    and part: "concat (loader (test_data smis) batch_size ncpu) = test_data smis"
    and shape: "\<forall>p b. nrows (fst (F False False p (BG b))) = length b \<and>
                      ncols (fst (F False False p (BG b))) = M"
    and ev: "\<not> training m"
  shows "\<exists>outs.
     snd (inference_loop F BG m (loader (test_data smis) batch_size ncpu) []) = outs \<and>
     list_all2 (\<lambda>out batch. \<exists>p. out = fst (F False False p (BG batch)))
       outs (loader (test_data smis) batch_size ncpu) \<and>
     np_concatenate outs = Inr \<lparr>ncols = M, rows = concat (map rows outs)\<rparr> \<and>
     length (concat (map rows outs)) = length smis"
proof -
  let ?bs = "loader (test_data smis) batch_size ncpu"
  from loop_outputs [OF ev, of F BG ?bs "[]"]
  obtain outs where o: "snd (inference_loop F BG m ?bs []) = outs"
    "list_all2 (\<lambda>out batch. \<exists>p. out = fst (F False False p (BG batch))) outs ?bs"
    by auto
  from o(2) shape
  have sh: "list_all2 (\<lambda>out batch. nrows out = length batch \<and> ncols out = M) outs ?bs"
    by (auto elim!: list_all2_mono)
  from ne have "test_data smis \<noteq> []" by (simp add: test_data_def)
  with part have "?bs \<noteq> []" by auto
  with o(2) have outs: "outs \<noteq> []" by (auto simp: list_all2_Nil2)
  from list_all2_rows_cols [OF sh]
  have c: "list_all (\<lambda>b. ncols b = M) outs"
    "length (concat (map rows outs)) = length (concat ?bs)" by simp_all
  from outs c(1) have "np_concatenate outs = Inr \<lparr>ncols = M, rows = concat (map rows outs)\<rparr>"
    by (rule np_concatenate_same_cols)
  moreover from c(2) part have "length (concat (map rows outs)) = length smis"
    by (simp add: test_data_def)
  ultimately show ?thesis using o by blast
qed

section \<open>The claims\<close>

subsection \<open>C1: the pair of a mean/variance model\<close>

text \<open>
  Claim C1, as amended. In a run with the uncertainty flag set whose batch outputs
  concatenate to an \<open>N \<times> M\<close> array \<open>preds\<close>, \<^verbatim>\<open>_predict\<close> takes \<open>means\<close>, the
  even-indexed columns of \<open>preds\<close>, and \<open>variances\<close>, its odd-indexed columns: \<open>N\<close> rows
  each, \<open>(M + 1) div 2\<close> and \<open>M div 2\<close> columns, so \<open>M / 2\<close> each when \<open>M\<close> is even. With
  no scaler the result is this pair. With a scaler the result is the pair of the
  scaler's inverse transform of \<open>means\<close> and of \<^verbatim>\<open>stds**2 * variances\<close> (or the
  \<^verbatim>\<open>ValueError\<close> of that product), not the slices themselves.
\<close>

theorem uncertainty_pair:
  assumes "np_concatenate (snd (inference_loop F BG (eval m) dl [])) = Inr preds"
    and "wf_ndarray preds"
  shows "(let means = cols_from_step2 0 preds; variances = cols_from_step2 1 preds in
     snd (predict' F BG m dl True d scaler) =
       (case scaler of
          None \<Rightarrow> Inr (MeansVars means variances)
        | Some sc \<Rightarrow>
            (case broadcast_times (map square (stds sc)) variances of
               Inl e \<Rightarrow> Inl e
             | Inr v \<Rightarrow> Inr (MeansVars (inverse_transform sc means) v))) \<and>
     nrows means = nrows preds \<and> nrows variances = nrows preds \<and>
     ncols means = (ncols preds + 1) div 2 \<and> ncols variances = ncols preds div 2 \<and>
     (even (ncols preds) \<longrightarrow> ncols means = ncols preds div 2) \<and>
     wf_ndarray means \<and> wf_ndarray variances \<and>
     (\<forall>i<nrows preds. \<forall>j<ncols means. rows means ! i ! j = rows preds ! i ! (2 * j)) \<and>
     (\<forall>i<nrows preds. \<forall>j<ncols variances. rows variances ! i ! j = rows preds ! i ! (2 * j + 1)))"
proof -
  have res: "snd (predict' F BG m dl True d scaler) =
       (case scaler of
          None \<Rightarrow> Inr (MeansVars (cols_from_step2 0 preds) (cols_from_step2 1 preds))
        | Some sc \<Rightarrow>
            (case broadcast_times (map square (stds sc)) (cols_from_step2 1 preds) of
               Inl e \<Rightarrow> Inl e
             | Inr v \<Rightarrow> Inr (MeansVars (inverse_transform sc (cols_from_step2 0 preds)) v)))"
    using assms(1) by (simp add: predict'_result)
  have ev: "even (ncols preds) \<longrightarrow> ncols (cols_from_step2 0 preds) = ncols preds div 2"
    by (auto simp: cols_even_ncols)
  have e0: "\<forall>i<nrows preds. \<forall>j<ncols (cols_from_step2 0 preds).
      rows (cols_from_step2 0 preds) ! i ! j = rows preds ! i ! (2 * j)"
    using assms(2) by (simp add: cols_even_entry cols_even_ncols)
  have e1: "\<forall>i<nrows preds. \<forall>j<ncols (cols_from_step2 1 preds).
      rows (cols_from_step2 1 preds) ! i ! j = rows preds ! i ! (2 * j + 1)"
    using assms(2) by (simp add: cols_odd_entry_Suc cols_odd_ncols_Suc)
  show ?thesis
    unfolding Let_def
    using res ev e0 e1 cols_even_wf [OF assms(2)] cols_odd_wf [OF assms(2)]
    by (simp only: cols_nrows cols_even_ncols cols_odd_ncols simp_thms)
qed

theorem uncertainty_pair_witness:
  "np_concatenate (snd (inference_loop (sample_forward [0, 1]) id (eval sample_model)
      [[\<lparr>smiles = [''CCO'']\<rparr>, \<lparr>smiles = [''C'']\<rparr>], [\<lparr>smiles = [''CC'']\<rparr>]] [])) = Inr \<lparr>ncols = 2, rows = [[3, 4], [1, 2], [2, 3]]\<rparr> \<and>
   wf_ndarray \<lparr>ncols = 2, rows = [[3, 4], [1, 2], [2, 3]]\<rparr> \<and>
   snd (predict' (sample_forward [0, 1]) id sample_model
      [[\<lparr>smiles = [''CCO'']\<rparr>, \<lparr>smiles = [''C'']\<rparr>], [\<lparr>smiles = [''CC'']\<rparr>]] True True None) =
     Inr (MeansVars \<lparr>ncols = 1, rows = [[3], [1], [2]]\<rparr> \<lparr>ncols = 1, rows = [[4], [2], [3]]\<rparr>) \<and>
   snd (predict' (sample_forward [0, 1]) id sample_model
      [[\<lparr>smiles = [''CCO'']\<rparr>, \<lparr>smiles = [''C'']\<rparr>], [\<lparr>smiles = [''CC'']\<rparr>]] True True (Some (sample_scaler [3]))) =
     Inr (MeansVars \<lparr>ncols = 1, rows = [[19], [13], [16]]\<rparr>
                    \<lparr>ncols = 1, rows = [[36], [18], [27]]\<rparr>) \<and>
   cols_from_step2 0 \<lparr>ncols = 2, rows = [[3, 4], [1, 2], [2, 3]]\<rparr> = \<lparr>ncols = 1, rows = [[3], [1], [2]]\<rparr> \<and>
   cols_from_step2 1 \<lparr>ncols = 2, rows = [[3, 4], [1, 2], [2, 3]]\<rparr> = \<lparr>ncols = 1, rows = [[4], [2], [3]]\<rparr>"
proof -
  have h1: "np_concatenate (snd (inference_loop (sample_forward [0, 1]) id (eval sample_model)
      [[\<lparr>smiles = [''CCO'']\<rparr>, \<lparr>smiles = [''C'']\<rparr>], [\<lparr>smiles = [''CC'']\<rparr>]] [])) = Inr \<lparr>ncols = 2, rows = [[3, 4], [1, 2], [2, 3]]\<rparr>"
    by (simp add: eval_def np_concatenate_def sample_forward_def sample_row_def sample_model_def)
  have h2: "wf_ndarray \<lparr>ncols = 2, rows = [[3, 4], [1, 2], [2, 3]]\<rparr>"
    by (simp add: wf_ndarray_def)
  from uncertainty_pair [OF h1 h2, where d = True and scaler = "Some (sample_scaler [3])"]
    uncertainty_pair [OF h1 h2, where d = True and scaler = None] h1 h2
  show ?thesis
    by (simp add: Let_def cols_from_step2_def broadcast_times_def square_def sample_scaler_def)
qed

text \<open>
  The claim as first stated, that the returned means and variances are the even-indexed
  and odd-indexed columns themselves in every run with the uncertainty flag set, fails
  when a scaler is given. One molecule, raw output \<open>[[3, 4]]\<close>, a scaler with standard
  deviation 3 and mean 10: the call returns the means \<open>[[19]]\<close> and the variances
  \<open>[[36]]\<close>, not the slices \<open>[[3]]\<close> and \<open>[[4]]\<close>.
\<close>

theorem uncertainty_pair_counterexample:
  "np_concatenate (snd (inference_loop (sample_forward [0, 1]) id (eval sample_model)
      (sample_loader (test_data [''CCO'']) 2 1) [])) = Inr \<lparr>ncols = 2, rows = [[3, 4]]\<rparr> \<and>
   snd (predict (sample_forward [0, 1]) id sample_loader sample_model [''CCO''] 2 1 True
      (Some (sample_scaler [3])) False) =
     Inr (MeansVars \<lparr>ncols = 1, rows = [[19]]\<rparr> \<lparr>ncols = 1, rows = [[36]]\<rparr>) \<and>
   snd (predict (sample_forward [0, 1]) id sample_loader sample_model [''CCO''] 2 1 True
      (Some (sample_scaler [3])) False) \<noteq>
     Inr (MeansVars (cols_from_step2 0 \<lparr>ncols = 2, rows = [[3, 4]]\<rparr>)
                    (cols_from_step2 1 \<lparr>ncols = 2, rows = [[3, 4]]\<rparr>))"
  by (simp add: predict_def predict'_def to_def test_data_def sample_loader_def eval_def np_concatenate_def sample_forward_def sample_row_def sample_model_def
      cols_from_step2_def broadcast_times_def square_def sample_scaler_def)

subsection \<open>C2: de-normalising means and variances\<close>

text \<open>
  Claim C2. In a run with the uncertainty flag set and a scaler that has one standard
  deviation per task, the returned means are the scaler's inverse transform of the raw
  mean columns (the even-indexed columns of the raw output), and the returned variances
  are the raw variance columns (the odd-indexed ones) multiplied entry by entry by the
  square of the task's standard deviation.
\<close>

theorem scaler_uncertainty:
  assumes "np_concatenate (snd (inference_loop F BG (eval m) dl [])) = Inr preds"
    and "wf_ndarray preds"
    and "length (stds sc) = ncols preds div 2"
  shows "\<exists>variances.
     snd (predict' F BG m dl True d (Some sc)) =
       Inr (MeansVars (inverse_transform sc (cols_from_step2 0 preds)) variances) \<and>
     nrows variances = nrows preds \<and> ncols variances = ncols preds div 2 \<and>
     (\<forall>i<nrows preds. \<forall>j<ncols preds div 2.
        rows variances ! i ! j = square (stds sc ! j) * rows preds ! i ! (2 * j + 1)) \<and>
     (\<forall>i<nrows preds. \<forall>j<(ncols preds + 1) div 2.
        rows (cols_from_step2 0 preds) ! i ! j = rows preds ! i ! (2 * j))"
proof -
  let ?raw = "cols_from_step2 1 preds"
  let ?v = "map square (stds sc)"
  let ?V = "\<lparr>ncols = ncols ?raw, rows = map (\<lambda>r. map2 (*) ?v r) (rows ?raw)\<rparr>"
  have len: "length ?v = ncols ?raw" using assms(3) by (simp add: cols_odd_ncols_Suc)
  have bt: "broadcast_times ?v ?raw = Inr ?V" using len by (rule broadcast_times_same)
  have res: "snd (predict' F BG m dl True d (Some sc)) =
       Inr (MeansVars (inverse_transform sc (cols_from_step2 0 preds)) ?V)"
    using assms(1) bt by (simp add: predict'_result)
  have wf1: "wf_ndarray ?raw" using assms(2) by (rule cols_odd_wf)
  have ent: "rows ?V ! i ! j = square (stds sc ! j) * rows preds ! i ! (2 * j + 1)"
    if "i < nrows preds" "j < ncols preds div 2" for i j
  proof -
    from that(1) have i: "i < nrows ?raw" by (simp add: cols_nrows)
    from wf_row_length [OF wf1 i] have l: "length (rows ?raw ! i) = ncols preds div 2"
      by (simp add: cols_odd_ncols_Suc)
    from i have "rows ?V ! i = map2 (*) ?v (rows ?raw ! i)" by (simp add: nrows_def)
    with l that(2) assms(3) have "rows ?V ! i ! j = square (stds sc ! j) * rows ?raw ! i ! j"
      by simp
    with cols_odd_entry [OF assms(2) that] show ?thesis by simp
  qed
  have "nrows ?V = nrows preds" using cols_nrows [of 1 preds] by (simp add: nrows_def)
  moreover have "ncols ?V = ncols preds div 2" by (simp add: cols_odd_ncols_Suc)
  moreover have "\<forall>i<nrows preds. \<forall>j<(ncols preds + 1) div 2.
        rows (cols_from_step2 0 preds) ! i ! j = rows preds ! i ! (2 * j)"
    using assms(2) by (simp add: cols_even_entry)
  ultimately show ?thesis using res ent by blast
qed

theorem scaler_uncertainty_witness:
  "np_concatenate (snd (inference_loop (sample_forward [0, 1, 2, 3]) id (eval sample_model)
      [[\<lparr>smiles = [''CCO'']\<rparr>, \<lparr>smiles = [''C'']\<rparr>], [\<lparr>smiles = [''CC'']\<rparr>]] [])) = Inr \<lparr>ncols = 4, rows = [[3, 4, 5, 6], [1, 2, 3, 4], [2, 3, 4, 5]]\<rparr> \<and>
   wf_ndarray \<lparr>ncols = 4, rows = [[3, 4, 5, 6], [1, 2, 3, 4], [2, 3, 4, 5]]\<rparr> \<and>
   length (stds (sample_scaler [3, 2])) = ncols \<lparr>ncols = 4, rows = [[3, 4, 5, 6], [1, 2, 3, 4], [2, 3, 4, 5]]\<rparr> div 2 \<and>
   snd (predict' (sample_forward [0, 1, 2, 3]) id sample_model
      [[\<lparr>smiles = [''CCO'']\<rparr>, \<lparr>smiles = [''C'']\<rparr>], [\<lparr>smiles = [''CC'']\<rparr>]] True True (Some (sample_scaler [3, 2]))) =
     Inr (MeansVars \<lparr>ncols = 2, rows = [[19, 20], [13, 16], [16, 18]]\<rparr>
                    \<lparr>ncols = 2, rows = [[36, 24], [18, 16], [27, 20]]\<rparr>)"
proof -
  have h1: "np_concatenate (snd (inference_loop (sample_forward [0, 1, 2, 3]) id (eval sample_model)
      [[\<lparr>smiles = [''CCO'']\<rparr>, \<lparr>smiles = [''C'']\<rparr>], [\<lparr>smiles = [''CC'']\<rparr>]] [])) = Inr \<lparr>ncols = 4, rows = [[3, 4, 5, 6], [1, 2, 3, 4], [2, 3, 4, 5]]\<rparr>"
    by (simp add: eval_def np_concatenate_def sample_forward_def sample_row_def sample_model_def)
  have h2: "wf_ndarray \<lparr>ncols = 4, rows = [[3, 4, 5, 6], [1, 2, 3, 4], [2, 3, 4, 5]]\<rparr>"
    by (simp add: wf_ndarray_def)
  have h3: "length (stds (sample_scaler [3, 2])) = ncols \<lparr>ncols = 4, rows = [[3, 4, 5, 6], [1, 2, 3, 4], [2, 3, 4, 5]]\<rparr> div 2"
    by (simp add: sample_scaler_def)
  from scaler_uncertainty [OF h1 h2 h3, where d = True] h1 h2 h3
  show ?thesis
    by (simp add: predict'_result cols_from_step2_def broadcast_times_def square_def
        sample_scaler_def)
qed

subsection \<open>C3: de-normalising a single array\<close>

text \<open>
  Claim C3, as amended. In a run with the uncertainty flag unset and a scaler, on a
  non-empty input of \<open>N\<close> molecule strings that the loader yields in order and a model
  with one row per molecule and \<open>M\<close> columns, the result is one array: the scaler's
  inverse transform of the \<open>N \<times> M\<close> concatenated raw output. That array is \<open>N \<times> M\<close>
  itself when the scaler's inverse transform keeps the shape of \<open>N \<times> M\<close> arrays, as one
  with \<open>M\<close> standard deviations does.
\<close>

theorem scaler_single_array:
  assumes "smis \<noteq> []"
    and "concat (loader (test_data smis) batch_size ncpu) = test_data smis"
    and "\<forall>p b. nrows (fst (F False False p (BG b))) = length b \<and>
                ncols (fst (F False False p (BG b))) = M"
  shows "\<exists>preds.
     np_concatenate (snd (inference_loop F BG (eval (if gpu then to m 0 else m))
        (loader (test_data smis) batch_size ncpu) [])) = Inr preds \<and>
     nrows preds = length smis \<and> ncols preds = M \<and>
     snd (predict F BG loader m smis batch_size ncpu False (Some sc) gpu) =
       Inr (Preds (inverse_transform sc preds)) \<and>
     ((\<forall>a. nrows a = length smis \<and> ncols a = M \<longrightarrow>
           nrows (inverse_transform sc a) = length smis \<and>
           ncols (inverse_transform sc a) = M) \<longrightarrow>
      nrows (inverse_transform sc preds) = length smis \<and>
      ncols (inverse_transform sc preds) = M)"
proof -
  let ?m = "if gpu then to m 0 else m" and ?bs = "loader (test_data smis) batch_size ncpu"
  have ev: "\<not> training (eval ?m)" by (simp add: eval_def)
  from raw_preds [where F = F and BG = BG and loader = loader and m = "eval ?m", OF assms ev]
  obtain outs where o: "snd (inference_loop F BG (eval ?m) ?bs []) = outs"
    "np_concatenate outs = Inr \<lparr>ncols = M, rows = concat (map rows outs)\<rparr>"
    "length (concat (map rows outs)) = length smis"
    by blast
  let ?preds = "\<lparr>ncols = M, rows = concat (map rows outs)\<rparr>"
  have n: "nrows ?preds = length smis" "ncols ?preds = M" using o(3) by (simp_all add: nrows_def)
  have a: "snd (predict F BG loader m smis batch_size ncpu False (Some sc) gpu) =
      Inr (Preds (inverse_transform sc ?preds))"
    using o(1,2) by (simp add: predict_unfold predict'_result)
  have c: "np_concatenate (snd (inference_loop F BG (eval ?m) ?bs [])) = Inr ?preds"
    using o(1,2) by simp
  from c n a show ?thesis by blast
qed

theorem scaler_single_array_witness:
  "[''CCO'', ''C'', ''CC''] \<noteq> [] \<and>
   concat (sample_loader (test_data [''CCO'', ''C'', ''CC'']) 2 1) = test_data [''CCO'', ''C'', ''CC''] \<and>
   (\<forall>p b. nrows (fst (sample_forward [0, 1] False False p (id b))) = length b \<and>
          ncols (fst (sample_forward [0, 1] False False p (id b))) = 2) \<and>
   snd (predict (sample_forward [0, 1]) id sample_loader sample_model [''CCO'', ''C'', ''CC''] 2 1 False
      (Some (broadcast_scaler [3, 2])) False) =
     Inr (Preds \<lparr>ncols = 2, rows = [[19, 18], [13, 14], [16, 16]]\<rparr>) \<and>
   inverse_transform (broadcast_scaler [3, 2]) \<lparr>ncols = 2, rows = [[3, 4], [1, 2], [2, 3]]\<rparr> =
     \<lparr>ncols = 2, rows = [[19, 18], [13, 14], [16, 16]]\<rparr> \<and>
   nrows \<lparr>ncols = 2, rows = [[19 :: int, 18], [13, 14], [16, 16]]\<rparr> = length [''CCO'', ''C'', ''CC'']"
proof -
  have h1: "[''CCO'', ''C'', ''CC''] \<noteq> []" by simp
  have h2: "concat (sample_loader (test_data [''CCO'', ''C'', ''CC'']) 2 1) = test_data [''CCO'', ''C'', ''CC'']"
    by (simp add: test_data_def sample_loader_def)
  have h3: "\<forall>p b. nrows (fst (sample_forward [0, 1] False False p (id b))) = length b \<and>
          ncols (fst (sample_forward [0, 1] False False p (id b))) = 2"
    by (simp add: nrows_def sample_forward_def)
  have h4: "\<forall>a. nrows a = length [''CCO'', ''C'', ''CC''] \<and> ncols a = 2 \<longrightarrow>
      nrows (inverse_transform (broadcast_scaler [3, 2]) a) = length [''CCO'', ''C'', ''CC''] \<and>
      ncols (inverse_transform (broadcast_scaler [3, 2]) a) = 2"
    by (simp add: nrows_def broadcast_scaler_def)
  from scaler_single_array [where F = "sample_forward [0, 1]" and BG = id
      and loader = sample_loader and m = sample_model and gpu = False
      and sc = "broadcast_scaler [3, 2]", OF h1 h2 h3] h4
  obtain preds where p:
    "snd (predict (sample_forward [0, 1]) id sample_loader sample_model [''CCO'', ''C'', ''CC''] 2 1 False
       (Some (broadcast_scaler [3, 2])) False) =
     Inr (Preds (inverse_transform (broadcast_scaler [3, 2]) preds))"
    "nrows (inverse_transform (broadcast_scaler [3, 2]) preds) = length [''CCO'', ''C'', ''CC'']"
    by blast
  have r: "snd (predict (sample_forward [0, 1]) id sample_loader sample_model [''CCO'', ''C'', ''CC''] 2 1 False
      (Some (broadcast_scaler [3, 2])) False) =
     Inr (Preds \<lparr>ncols = 2, rows = [[19, 18], [13, 14], [16, 16]]\<rparr>)"
    by (simp add: predict_def predict'_def to_def test_data_def sample_loader_def eval_def np_concatenate_def
        sample_forward_def sample_row_def sample_model_def broadcast_scaler_def)
  from p r have "nrows \<lparr>ncols = 2, rows = [[19 :: int, 18], [13, 14], [16, 16]]\<rparr> =
      length [''CCO'', ''C'', ''CC'']"
    by simp
  moreover have "inverse_transform (broadcast_scaler [3, 2])
      \<lparr>ncols = 2, rows = [[3, 4], [1, 2], [2, 3]]\<rparr> =
     \<lparr>ncols = 2, rows = [[19, 18], [13, 14], [16, 16]]\<rparr>"
    by (simp add: broadcast_scaler_def)
  ultimately show ?thesis using h1 h2 h3 r by blast
qed

text \<open>
  The claim as first stated, for every run with the uncertainty flag unset and a
  scaler, fails in two ways. On the empty input there is no array: the run ends in
  \<^verbatim>\<open>ValueError\<close>. And the result need not have the raw output's shape: with a model of
  one column and a scaler with two standard deviations, the raw output of three
  molecules is \<open>3 \<times> 1\<close> and numpy's broadcasting makes the result \<open>3 \<times> 2\<close>.
\<close>

theorem scaler_single_array_counterexample:
  "snd (predict (sample_forward [0, 1]) id sample_loader sample_model [] 2 1 False
      (Some (broadcast_scaler [3, 2])) False) = Inl ValueError \<and>
   np_concatenate (snd (inference_loop (sample_forward [0]) id (eval sample_model)
      (sample_loader (test_data [''CCO'', ''C'', ''CC'']) 2 1) [])) =
     Inr \<lparr>ncols = 1, rows = [[3], [1], [2]]\<rparr> \<and>
   snd (predict (sample_forward [0]) id sample_loader sample_model [''CCO'', ''C'', ''CC''] 2 1 False
      (Some (broadcast_scaler [3, 2])) False) =
     Inr (Preds \<lparr>ncols = 2, rows = [[19, 16], [13, 12], [16, 14]]\<rparr>)"
  by (simp add: predict_def predict'_def to_def test_data_def sample_loader_def eval_def np_concatenate_def
        sample_forward_def sample_row_def sample_model_def broadcast_scaler_def)

subsection \<open>C4: no scaler, no de-normalisation\<close>

text \<open>
  Claim C4. When the scaler is \<^verbatim>\<open>None\<close>, \<^verbatim>\<open>_predict\<close> returns the concatenated raw
  model output as it is: the single array when the uncertainty flag is unset, and the
  pair of its even-indexed and odd-indexed column slices when it is set. (When the
  concatenation raises, so does the call.)
\<close>

theorem no_scaler_raw:
  "snd (predict' F BG m dl u d None) =
     (case np_concatenate (snd (inference_loop F BG (eval m) dl [])) of
        Inl e \<Rightarrow> Inl e
      | Inr preds \<Rightarrow>
          Inr (if u then MeansVars (cols_from_step2 0 preds) (cols_from_step2 1 preds)
               else Preds preds))"
  by (simp add: predict'_result split: sum.splits)

theorem no_scaler_raw_witness:
  "snd (predict' (sample_forward [0, 1]) id sample_model
      [[\<lparr>smiles = [''CCO'']\<rparr>, \<lparr>smiles = [''C'']\<rparr>], [\<lparr>smiles = [''CC'']\<rparr>]] False True None) = Inr (Preds \<lparr>ncols = 2, rows = [[3, 4], [1, 2], [2, 3]]\<rparr>) \<and>
   snd (predict' (sample_forward [0, 1]) id sample_model
      [[\<lparr>smiles = [''CCO'']\<rparr>, \<lparr>smiles = [''C'']\<rparr>], [\<lparr>smiles = [''CC'']\<rparr>]] True True None) =
     Inr (MeansVars \<lparr>ncols = 1, rows = [[3], [1], [2]]\<rparr> \<lparr>ncols = 1, rows = [[4], [2], [3]]\<rparr>)"
  using no_scaler_raw [of "sample_forward [0, 1]" id sample_model
      "[[\<lparr>smiles = [''CCO'']\<rparr>, \<lparr>smiles = [''C'']\<rparr>], [\<lparr>smiles = [''CC'']\<rparr>]]" False True]
    no_scaler_raw [of "sample_forward [0, 1]" id sample_model
      "[[\<lparr>smiles = [''CCO'']\<rparr>, \<lparr>smiles = [''C'']\<rparr>], [\<lparr>smiles = [''CC'']\<rparr>]]" True True]
  by (simp add: eval_def np_concatenate_def sample_forward_def sample_row_def sample_model_def cols_from_step2_def)

subsection \<open>C5: one datapoint per molecule string\<close>

text \<open>
  Claim C5. \<^verbatim>\<open>predict\<close> builds the dataset with exactly one datapoint per input
  string, in input order, the datapoint of \<open>smi\<close> holding the one-element molecule list
  \<open>[smi]\<close>; this dataset is what it hands to the data loader.
\<close>

theorem predict_builds_dataset:
  "length (test_data smis) = length smis \<and>
   (\<forall>i<length smis. test_data smis ! i = \<lparr>smiles = [smis ! i]\<rparr>) \<and>
   predict F BG loader m smis batch_size ncpu u sc gpu =
     predict' F BG (if gpu then to m 0 else m) (loader (test_data smis) batch_size ncpu) u True sc"
  by (simp add: predict_unfold test_data_def)

theorem predict_builds_dataset_witness:
  "length (test_data [''CCO'', ''C'', ''CC'']) = 3 \<and>
   test_data [''CCO'', ''C'', ''CC''] ! 0 = \<lparr>smiles = [''CCO'']\<rparr> \<and>
   test_data [''CCO'', ''C'', ''CC''] ! 1 = \<lparr>smiles = [''C'']\<rparr> \<and>
   test_data [''CCO'', ''C'', ''CC''] ! 2 = \<lparr>smiles = [''CC'']\<rparr> \<and>
   predict (sample_forward [0, 1]) id sample_loader sample_model [''CCO'', ''C'', ''CC''] 2 1 False None False =
   predict' (sample_forward [0, 1]) id sample_model
      [[\<lparr>smiles = [''CCO'']\<rparr>, \<lparr>smiles = [''C'']\<rparr>], [\<lparr>smiles = [''CC'']\<rparr>]] False True None"
  using predict_builds_dataset [where smis = "[''CCO'', ''C'', ''CC'']" and F = "sample_forward [0, 1]"
      and BG = id and loader = sample_loader and m = sample_model and batch_size = 2 and ncpu = 1
      and u = False and sc = None and gpu = False]
  by (simp add: test_data_def sample_loader_def)

subsection \<open>C6: one row per molecule, in input order\<close>

text \<open>
  Claim C6. On a non-empty input of \<open>N\<close> molecule strings that the loader yields in
  order, split into batches, with a model that returns one row per molecule of a batch,
  the per-batch outputs are concatenated along the rows in the order of the batches and
  the output has exactly \<open>N\<close> rows (the single array, and each array of the pair). When
  the model's rows are a function \<open>f\<close> of the molecule, row \<open>i\<close> of the raw output is
  \<open>f\<close> of molecule \<open>i\<close>.
\<close>

theorem rows_in_input_order:
  assumes "smis \<noteq> []"
    and "concat (loader (test_data smis) batch_size ncpu) = test_data smis"
    and "\<forall>p b. nrows (fst (F False False p (BG b))) = length b \<and>
                ncols (fst (F False False p (BG b))) = M"
  shows "\<exists>outs preds.
     list_all2 (\<lambda>out batch. \<exists>p. out = fst (F False False p (BG batch)))
       outs (loader (test_data smis) batch_size ncpu) \<and>
     preds = \<lparr>ncols = M, rows = concat (map rows outs)\<rparr> \<and>
     nrows preds = length smis \<and>
     snd (predict F BG loader m smis batch_size ncpu False None gpu) = Inr (Preds preds) \<and>
     snd (predict F BG loader m smis batch_size ncpu True None gpu) =
       Inr (MeansVars (cols_from_step2 0 preds) (cols_from_step2 1 preds)) \<and>
     nrows (cols_from_step2 0 preds) = length smis \<and>
     nrows (cols_from_step2 1 preds) = length smis \<and>
     ((\<forall>p b. rows (fst (F False False p (BG b))) = map f b) \<longrightarrow>
        rows preds = map f (test_data smis))"
proof -
  let ?m = "if gpu then to m 0 else m" and ?bs = "loader (test_data smis) batch_size ncpu"
  have ev: "\<not> training (eval ?m)" by (simp add: eval_def)
  from raw_preds [where F = F and BG = BG and loader = loader and m = "eval ?m", OF assms ev]
  obtain outs where o: "snd (inference_loop F BG (eval ?m) ?bs []) = outs"
    "list_all2 (\<lambda>out batch. \<exists>p. out = fst (F False False p (BG batch))) outs ?bs"
    "np_concatenate outs = Inr \<lparr>ncols = M, rows = concat (map rows outs)\<rparr>"
    "length (concat (map rows outs)) = length smis"
    by blast
  let ?preds = "\<lparr>ncols = M, rows = concat (map rows outs)\<rparr>"
  have n: "nrows ?preds = length smis" using o(4) by (simp add: nrows_def)
  have a: "snd (predict F BG loader m smis batch_size ncpu False None gpu) = Inr (Preds ?preds)"
    using o(1,3) by (simp add: predict_unfold predict'_result)
  have b: "snd (predict F BG loader m smis batch_size ncpu True None gpu) =
       Inr (MeansVars (cols_from_step2 0 ?preds) (cols_from_step2 1 ?preds))"
    using o(1,3) by (simp add: predict_unfold predict'_result)
  have c: "rows ?preds = map f (test_data smis)"
    if "\<forall>p b. rows (fst (F False False p (BG b))) = map f b"
  proof -
    from o(2) that have "list_all2 (\<lambda>out batch. rows out = map f batch) outs ?bs"
      by (auto elim!: list_all2_mono)
    from concat_rowwise [OF this] assms(2) show ?thesis by simp
  qed
  from o(2) n a b c show ?thesis
    by (intro exI [of _ outs] exI [of _ ?preds]) (simp add: cols_nrows)
qed

theorem rows_in_input_order_witness:
  "[''CCO'', ''C'', ''CC''] \<noteq> [] \<and>
   concat (sample_loader (test_data [''CCO'', ''C'', ''CC'']) 2 1) = test_data [''CCO'', ''C'', ''CC''] \<and>
   (\<forall>p b. nrows (fst (sample_forward [0, 1] False False p (id b))) = length b \<and>
          ncols (fst (sample_forward [0, 1] False False p (id b))) = 2) \<and>
   (\<forall>p b. rows (fst (sample_forward [0, 1] False False p (id b))) = map (sample_row [0, 1]) b) \<and>
   snd (predict (sample_forward [0, 1]) id sample_loader sample_model [''CCO'', ''C'', ''CC''] 2 1 False None False) =
     Inr (Preds \<lparr>ncols = 2, rows = [[3, 4], [1, 2], [2, 3]]\<rparr>) \<and>
   snd (predict (sample_forward [0, 1]) id sample_loader sample_model [''CCO'', ''C'', ''CC''] 2 1 True None False) =
     Inr (MeansVars \<lparr>ncols = 1, rows = [[3], [1], [2]]\<rparr> \<lparr>ncols = 1, rows = [[4], [2], [3]]\<rparr>) \<and>
   map (sample_row [0, 1]) (test_data [''CCO'', ''C'', ''CC'']) = [[3, 4], [1, 2], [2, 3]]"
proof -
  have h1: "[''CCO'', ''C'', ''CC''] \<noteq> []" by simp
  have h2: "concat (sample_loader (test_data [''CCO'', ''C'', ''CC'']) 2 1) = test_data [''CCO'', ''C'', ''CC'']"
    by (simp add: test_data_def sample_loader_def)
  have h3: "\<forall>p b. nrows (fst (sample_forward [0, 1] False False p (id b))) = length b \<and>
          ncols (fst (sample_forward [0, 1] False False p (id b))) = 2"
    by (simp add: nrows_def sample_forward_def)
  have h4: "\<forall>p b. rows (fst (sample_forward [0, 1] False False p (id b))) = map (sample_row [0, 1]) b"
    by (simp add: sample_forward_def)
  from rows_in_input_order [where F = "sample_forward [0, 1]" and BG = id
      and loader = sample_loader and m = sample_model and gpu = False
      and f = "sample_row [0, 1]", OF h1 h2 h3] h1 h2 h3 h4
  show ?thesis
    by (simp add: predict_def predict'_def to_def test_data_def sample_loader_def eval_def np_concatenate_def sample_forward_def sample_row_def sample_model_def cols_from_step2_def)
qed

subsection \<open>C7: inference only\<close>

text \<open>
  Claim C7. Every forward pass of \<^verbatim>\<open>_predict\<close> runs with the model in evaluation mode
  and with gradients disabled: the run is the same for any two forward functions that
  agree in that mode, whatever they do in training mode or with gradients on. So when a
  forward pass in that mode leaves the parameters as they are, so does the prediction.
\<close>

theorem forward_eval_no_grad:
  fixes F :: "('a::times, 'p, 'g) forward"
  assumes "\<forall>p g. F False False p g = F' False False p g"
    and "\<forall>p g. snd (F False False p g) = p"
  shows "predict' F BG m dl u d sc = predict' F' BG m dl u d sc \<and>
         params (fst (predict' F BG m dl u d sc)) = params m \<and>
         predict F BG loader m smis batch_size ncpu u sc gpu =
           predict F' BG loader m smis batch_size ncpu u sc gpu \<and>
         params (fst (predict F BG loader m smis batch_size ncpu u sc gpu)) = params m"
proof -
  have run: "predict' F BG m dl u d sc = predict' F' BG m dl u d sc \<and>
      params (fst (predict' F BG m dl u d sc)) = params m" for m :: "'p module" and dl d
  proof
    have ev: "\<not> training (eval m)" by (simp add: eval_def)
    from loop_cong [where F = F and F' = F' and m = "eval m", OF ev assms(1)]
    show "predict' F BG m dl u d sc = predict' F' BG m dl u d sc"
      by (simp add: predict'_def)
    from loop_params [where F = F and m = "eval m", OF ev assms(2)]
    show "params (fst (predict' F BG m dl u d sc)) = params m"
      by (simp add: predict'_model eval_def)
  qed
  let ?m = "if gpu then to m 0 else m" and ?dl = "loader (test_data smis) batch_size ncpu"
  have pm: "params ?m = params m" by (simp add: to_def)
  have r: "predict' F BG ?m ?dl u True sc = predict' F' BG ?m ?dl u True sc"
    "params (fst (predict' F BG ?m ?dl u True sc)) = params ?m"
    using run [of ?m ?dl True] by blast+
  have c: "predict F BG loader m smis batch_size ncpu u sc gpu =
      predict F' BG loader m smis batch_size ncpu u sc gpu"
    unfolding predict_unfold by (rule r(1))
  have "params (fst (predict F BG loader m smis batch_size ncpu u sc gpu)) = params m"
    unfolding predict_unfold using r(2) pm by (rule trans)
  with run [of m dl d] c show ?thesis by blast
qed

theorem forward_eval_no_grad_witness:
  "(\<forall>p g. sample_forward [0, 1] False False p g = frozen_forward [0, 1] False False p g) \<and>
   (\<forall>p g. snd (sample_forward [0, 1] False False p g) = p) \<and>
   sample_forward [0, 1] True False 0 [] \<noteq> frozen_forward [0, 1] True False 0 [] \<and>
   predict' (sample_forward [0, 1]) id sample_model [[\<lparr>smiles = [''CCO'']\<rparr>, \<lparr>smiles = [''C'']\<rparr>], [\<lparr>smiles = [''CC'']\<rparr>]] False True None =
   predict' (frozen_forward [0, 1]) id sample_model [[\<lparr>smiles = [''CCO'']\<rparr>, \<lparr>smiles = [''C'']\<rparr>], [\<lparr>smiles = [''CC'']\<rparr>]] False True None \<and>
   params (fst (predict' (sample_forward [0, 1]) id sample_model [[\<lparr>smiles = [''CCO'']\<rparr>, \<lparr>smiles = [''C'']\<rparr>], [\<lparr>smiles = [''CC'']\<rparr>]] False True None)) = 0 \<and>
   params (fst (predict (sample_forward [0, 1]) id sample_loader sample_model [''CCO'', ''C'', ''CC''] 2 1
      False None True)) = 0"
proof -
  have h1: "\<forall>p g. sample_forward [0, 1] False False p g = frozen_forward [0, 1] False False p g"
    by (simp add: sample_forward_def frozen_forward_def)
  have h2: "\<forall>p g. snd (sample_forward [0, 1] False False p g) = p"
    by (simp add: sample_forward_def)
  have h3: "sample_forward [0, 1] True False 0 [] \<noteq> frozen_forward [0, 1] True False 0 []"
    by (simp add: sample_forward_def frozen_forward_def)
  have p0: "params sample_model = 0" by (simp add: sample_model_def)
  note run = forward_eval_no_grad [where F = "sample_forward [0, 1]" and F' = "frozen_forward [0, 1]",
      OF h1 h2, where BG = id and m = sample_model
        and dl = "[[\<lparr>smiles = [''CCO'']\<rparr>, \<lparr>smiles = [''C'']\<rparr>], [\<lparr>smiles = [''CC'']\<rparr>]]" and u = False and d = True
        and sc = None and loader = sample_loader and smis = "[''CCO'', ''C'', ''CC'']" and batch_size = 2
        and ncpu = 1 and gpu = True, unfolded p0]
  from h1 h2 h3 run show ?thesis by blast
qed

subsection \<open>C8: the empty input\<close>

text \<open>
  Claim C8. On the empty input the data loader yields no batch, \<^verbatim>\<open>np.concatenate\<close>
  gets the empty list and raises: \<^verbatim>\<open>predict\<close> ends in \<^verbatim>\<open>ValueError\<close>, not in an
  empty array.
\<close>

theorem predict_empty_raises:
  "loader [] batch_size ncpu = [] \<Longrightarrow>
   snd (predict F BG loader m [] batch_size ncpu u sc gpu) = Inl ValueError"
  by (simp add: predict_unfold predict'_result test_data_def np_concatenate_def)

theorem predict_empty_raises_witness:
  "sample_loader [] 2 1 = [] \<and>
   snd (predict (sample_forward [0, 1]) id sample_loader sample_model [] 2 1 False None False) =
     Inl ValueError"
  using predict_empty_raises [of sample_loader 2 1 "sample_forward [0, 1]" id sample_model
      False None False]
  by (simp add: sample_loader_def)

subsection \<open>C9: an odd number of columns\<close>

text \<open>
  Claim C9. With the uncertainty flag set and an odd number \<open>M\<close> of output columns the
  slicing still succeeds, and the means have \<open>(M + 1) div 2\<close> columns, one more than the
  \<open>M div 2\<close> columns of the variances.
\<close>

theorem odd_columns:
  assumes "np_concatenate (snd (inference_loop F BG (eval m) dl [])) = Inr preds"
    and "wf_ndarray preds"
    and "odd (ncols preds)"
  shows "\<exists>means variances.
     snd (predict' F BG m dl True d None) = Inr (MeansVars means variances) \<and>
     ncols means = (ncols preds + 1) div 2 \<and> ncols variances = ncols preds div 2 \<and>
     ncols means = ncols variances + 1 \<and>
     nrows means = nrows preds \<and> nrows variances = nrows preds \<and>
     list_all (\<lambda>r. length r = ncols variances + 1) (rows means) \<and>
     list_all (\<lambda>r. length r = ncols variances) (rows variances)"
proof -
  let ?mu = "cols_from_step2 0 preds" and ?var = "cols_from_step2 1 preds"
  have res: "snd (predict' F BG m dl True d None) = Inr (MeansVars ?mu ?var)"
    using assms(1) by (simp add: predict'_result)
  from assms(3) have one: "(ncols preds + 1) div 2 = ncols preds div 2 + 1"
    by (auto elim: oddE)
  have c0: "ncols ?mu = (ncols preds + 1) div 2" and c1: "ncols ?var = ncols preds div 2"
    by (simp_all add: cols_even_ncols cols_odd_ncols_Suc)
  from cols_even_wf [OF assms(2)] one
  have "list_all (\<lambda>r. length r = ncols ?var + 1) (rows ?mu)"
    by (simp add: wf_ndarray_def cols_even_ncols cols_odd_ncols_Suc)
  moreover from cols_odd_wf [OF assms(2)] have "list_all (\<lambda>r. length r = ncols ?var) (rows ?var)"
    by (simp add: wf_ndarray_def)
  ultimately show ?thesis using res c0 c1 one cols_nrows [of 0 preds] cols_nrows [of 1 preds]
    by (intro exI [of _ ?mu] exI [of _ ?var]) simp
qed

theorem odd_columns_witness:
  "np_concatenate (snd (inference_loop (sample_forward [0, 1, 2]) id (eval sample_model)
      [[\<lparr>smiles = [''CCO'']\<rparr>, \<lparr>smiles = [''C'']\<rparr>], [\<lparr>smiles = [''CC'']\<rparr>]] [])) = Inr \<lparr>ncols = 3, rows = [[3, 4, 5], [1, 2, 3], [2, 3, 4]]\<rparr> \<and>
   wf_ndarray \<lparr>ncols = 3, rows = [[3, 4, 5], [1, 2, 3], [2, 3, 4]]\<rparr> \<and>
   odd (ncols \<lparr>ncols = 3, rows = [[3, 4, 5], [1, 2, 3], [2, 3, 4]]\<rparr>) \<and>
   snd (predict' (sample_forward [0, 1, 2]) id sample_model
      [[\<lparr>smiles = [''CCO'']\<rparr>, \<lparr>smiles = [''C'']\<rparr>], [\<lparr>smiles = [''CC'']\<rparr>]] True True None) =
     Inr (MeansVars \<lparr>ncols = 2, rows = [[3, 5], [1, 3], [2, 4]]\<rparr>
                    \<lparr>ncols = 1, rows = [[4], [2], [3]]\<rparr>)"
proof -
  have h1: "np_concatenate (snd (inference_loop (sample_forward [0, 1, 2]) id (eval sample_model)
      [[\<lparr>smiles = [''CCO'']\<rparr>, \<lparr>smiles = [''C'']\<rparr>], [\<lparr>smiles = [''CC'']\<rparr>]] [])) = Inr \<lparr>ncols = 3, rows = [[3, 4, 5], [1, 2, 3], [2, 3, 4]]\<rparr>"
    by (simp add: eval_def np_concatenate_def sample_forward_def sample_row_def sample_model_def)
  have h2: "wf_ndarray \<lparr>ncols = 3, rows = [[3, 4, 5], [1, 2, 3], [2, 3, 4]]\<rparr>"
    by (simp add: wf_ndarray_def)
  have h3: "odd (ncols \<lparr>ncols = 3, rows = [[3, 4, 5], [1, 2, 3], [2, 3, 4]]\<rparr>)" by simp
  from odd_columns [OF h1 h2 h3, where d = True] h1 h2 h3
  show ?thesis
    by (simp add: predict'_result cols_from_step2_def)
qed

subsection \<open>C10: what prediction does to the model object\<close>

text \<open>
  Claim C10. \<^verbatim>\<open>predict\<close> changes its model argument and the change is there after
  the call, whether it returns or raises: the model is in evaluation mode, and on CUDA
  device 0 when \<open>use_gpu\<close> is set (on the device it was on otherwise).
\<close>

theorem predict_mutates_model:
  "\<not> training (fst (predict F BG loader m smis bs ncpu u sc gpu)) \<and>
   device (fst (predict F BG loader m smis bs ncpu u sc gpu)) =
     (if gpu then CUDA 0 else device m)"
  by (simp add: predict_unfold predict'_model loop_training loop_device eval_def to_def)

theorem predict_mutates_model_witness:
  "training sample_model \<and> device sample_model = CPU \<and>
   \<not> training (fst (predict (sample_forward [0, 1]) id sample_loader sample_model
        [''CCO'', ''C'', ''CC''] 2 1 False None True)) \<and>
   device (fst (predict (sample_forward [0, 1]) id sample_loader sample_model
        [''CCO'', ''C'', ''CC''] 2 1 False None True)) = CUDA 0 \<and>
   device (fst (predict (sample_forward [0, 1]) id sample_loader sample_model
        [] 2 1 False None True)) = CUDA 0"
  using predict_mutates_model [of "sample_forward [0, 1]" id sample_loader sample_model
      "[''CCO'', ''C'', ''CC'']" 2 1 False None True]
    predict_mutates_model [of "sample_forward [0, 1]" id sample_loader sample_model
      "[]" 2 1 False None True]
  by (simp add: sample_model_def)

end
